theory Spec2Isabelle
  imports Complex_Main
begin

section \<open>Python values, exceptions and call traces\<close>

text \<open>
  The values that the program stores in attributes and in the persist dictionary:
  \<open>None\<close>, integers, strings, lists and tuples. The example states store a list of two
  integers under the key \<open>text_position\<close>, a string in \<open>text\<close> and a tuple of three
  integers in \<open>col\<close>.
\<close>

datatype pyval = VNone | VInt int | VStr string | VList "pyval list" | VTuple "pyval list"

text \<open>
  The exceptions the program can raise. \<open>KeyError\<close> is the failed lookup in the
  dictionary of states, \<open>AttributeError\<close> the read of an attribute that was never
  assigned, \<open>TypeError\<close> and \<open>IndexError\<close> come from subscripting, and \<open>SystemExit\<close> is
  what the builtin \<open>quit()\<close> raises.
\<close>

datatype error = KeyError | AttributeError | TypeError | IndexError | SystemExit

type_synonym state_key = "string option"
  \<comment> \<open>a key of the dictionary of states; \<open>None\<close> is Python's \<open>None\<close>, the initial \<open>next_state\<close>\<close>

type_synonym bag = "string \<rightharpoonup> pyval"
  \<comment> \<open>the persist dictionary\<close>

text \<open>Calls into the arcade library made by \<open>Game.on_draw\<close> and by the draw hooks.\<close>

datatype gfx = StartRender | SetBackgroundColor pyval | DrawText pyval pyval pyval

text \<open>
  What \<open>Game\<close> does during one callback, in order: the objects it constructs, the hooks
  it calls (with the identity of the receiving object and the arguments), and the library
  calls made meanwhile. Objects are identified by a number, as Python's \<open>id\<close> does.
\<close>

datatype event =
    Construct nat
  | Setup nat bag
  | KeyDown nat int int
  | KeyRelease nat int int
  | Update nat real
  | Draw nat
  | Lib gfx

text \<open>
  A computation returns the trace of what it did and either the exception that ended it
  or its result.
\<close>

type_synonym ('e, 'a) res = "'e list \<times> (error + 'a)"

definition ret :: "'a \<Rightarrow> ('e, 'a) res" where
  "ret x = ([], Inr x)"

definition raise :: "error \<Rightarrow> ('e, 'a) res" where
  "raise e = ([], Inl e)"

definition emit :: "'e \<Rightarrow> ('e, unit) res" where
  "emit e = ([e], Inr ())"

definition bind :: "('e, 'a) res \<Rightarrow> ('a \<Rightarrow> ('e, 'b) res) \<Rightarrow> ('e, 'b) res" where
  "bind m f =
     (case m of
        (t, Inl e) \<Rightarrow> (t, Inl e)
      | (t, Inr x) \<Rightarrow> (case f x of (t', r) \<Rightarrow> (t @ t', r)))"

definition lib :: "(gfx, 'a) res \<Rightarrow> (event, 'a) res" where
  "lib m = (map Lib (fst m), snd m)"

fun is_Construct :: "event \<Rightarrow> bool" where
  "is_Construct (Construct i) = True"
| "is_Construct e = False"

fun is_Update :: "event \<Rightarrow> bool" where
  "is_Update (Update i dt) = True"
| "is_Update e = False"

section \<open>State objects\<close>

text \<open>
  The attributes of a state object. \<open>State.__init__\<close> assigns \<open>persist\<close>, \<open>next_state\<close>,
  \<open>done\<close> and \<open>quit\<close>, so every instance has them; the attributes that subclasses add
  (\<open>text\<close>, \<open>text_position\<close>, \<open>col\<close>) are in \<open>attrs\<close>, where an attribute that was never
  assigned is absent.
\<close>

record inst =
  persist :: bag
  next_state :: state_key
  done_flag :: bool
  quit_flag :: bool
  attrs :: "string \<rightharpoonup> pyval"

text \<open>
  A class of states: its name, its constructor and its five methods. The update hook also
  receives the entropy that \<open>randint\<close> consumes.
\<close>

record state_class =
  cname :: string
  init_hook :: "(gfx, inst) res"
  setup_hook :: "inst \<Rightarrow> bag \<Rightarrow> (gfx, inst) res"
  key_down_hook :: "inst \<Rightarrow> int \<Rightarrow> int \<Rightarrow> (gfx, inst) res"
  key_release_hook :: "inst \<Rightarrow> int \<Rightarrow> int \<Rightarrow> (gfx, inst) res"
  update_hook :: "inst \<Rightarrow> real \<Rightarrow> nat \<Rightarrow> (gfx, inst) res"
  draw_hook :: "inst \<Rightarrow> (gfx, inst) res"

text \<open>
  \<open>ac.key.ESCAPE\<close> and \<open>ac.key.SPACE\<close> are constants of the arcade library, which is not
  part of the repository: the model takes them as parameters.
\<close>

record key_codes =
  ESCAPE :: int
  SPACE :: int

subsection \<open>Attribute and item access\<close>

definition getattr :: "inst \<Rightarrow> string \<Rightarrow> (gfx, pyval) res" where
  "getattr s n = (case attrs s n of None \<Rightarrow> raise AttributeError | Some v \<Rightarrow> ret v)"

text \<open>\<open>x[i]\<close> for a literal index \<open>i \<ge> 0\<close>.\<close>

fun getitem :: "pyval \<Rightarrow> nat \<Rightarrow> (gfx, pyval) res" where
  "getitem (VList xs) i = (if i < length xs then ret (xs ! i) else raise IndexError)"
| "getitem (VTuple xs) i = (if i < length xs then ret (xs ! i) else raise IndexError)"
| "getitem (VStr s) i = (if i < length s then ret (VStr [s ! i]) else raise IndexError)"
| "getitem v i = raise TypeError"

text \<open>
  \<open>x[i] += n\<close> for a literal index \<open>i \<ge> 0\<close> and an integer \<open>n\<close>: the item is read, the
  sum is computed, and the result is stored back. Only a list of which item \<open>i\<close> is an
  integer supports all three steps.
\<close>

fun iadd_item :: "pyval \<Rightarrow> nat \<Rightarrow> int \<Rightarrow> (gfx, pyval) res" where
  "iadd_item (VList xs) i n =
     (if i < length xs
      then (case xs ! i of
              VInt a \<Rightarrow> ret (VList (xs[i := VInt (a + n)]))
            | _ \<Rightarrow> raise TypeError)
      else raise IndexError)"
| "iadd_item (VTuple xs) i n = (if i < length xs then raise TypeError else raise IndexError)"
| "iadd_item (VStr s) i n = (if i < length s then raise TypeError else raise IndexError)"
| "iadd_item v i n = raise TypeError"

text \<open>\<open>randint(a, b)\<close> returns an integer between \<open>a\<close> and \<open>b\<close>, both included.\<close>

definition randint :: "int \<Rightarrow> int \<Rightarrow> nat \<Rightarrow> int" where
  "randint a b r = a + int r mod (b - a + 1)"

subsection \<open>class State\<close>

definition State_init :: "(gfx, inst) res" where
  "State_init =
     ret \<lparr>persist = Map.empty, next_state = None, done_flag = False, quit_flag = False,
          attrs = Map.empty\<rparr>"

definition State_setup :: "inst \<Rightarrow> bag \<Rightarrow> (gfx, inst) res" where
  "State_setup s p = ret (s\<lparr>persist := p\<rparr>)"

definition State_key_down :: "inst \<Rightarrow> int \<Rightarrow> int \<Rightarrow> (gfx, inst) res" where
  "State_key_down s key md = ret s"

definition State_key_release :: "inst \<Rightarrow> int \<Rightarrow> int \<Rightarrow> (gfx, inst) res" where
  "State_key_release s key md = ret s"

definition State_update :: "inst \<Rightarrow> real \<Rightarrow> nat \<Rightarrow> (gfx, inst) res" where
  "State_update s dt r = ret s"

definition State_draw :: "inst \<Rightarrow> (gfx, inst) res" where
  "State_draw s = ret s"

definition State_cls :: state_class where
  "State_cls =
     \<lparr>cname = ''State'', init_hook = State_init, setup_hook = State_setup,
      key_down_hook = State_key_down, key_release_hook = State_key_release,
      update_hook = State_update, draw_hook = State_draw\<rparr>"

subsection \<open>class MainMenu\<close>

text \<open>
  Values are modelled by their contents. In the program the list in \<open>text_position\<close>
  can be the very list stored in \<open>persist\<close>, and \<open>key_down\<close> changes it in place; the
  hook then stores the list in \<open>persist\<close> again, so when the hook returns both hold the
  same contents in the program as in the model. When an exception ends a hook the
  program stops, and the model keeps no state. The calls into the library
  (\<open>set_background_color\<close>, \<open>draw_text\<close>, \<open>start_render\<close>) are recorded in the trace
  and are taken to return.
\<close>

definition MainMenu_init :: "(gfx, inst) res" where
  "MainMenu_init = State_init"

definition MainMenu_setup :: "inst \<Rightarrow> bag \<Rightarrow> (gfx, inst) res" where
  "MainMenu_setup s p =
     (let s1 = s\<lparr>persist := p\<rparr>;
          s2 = s1\<lparr>attrs := (attrs s1)(''text'' \<mapsto>
                 VStr (''Scene One.'' @ [CHR 0x0A] @ ''Press Space to Change Scenes,''
                       @ [CHR 0x0A] @ ''Press Esc. to Exit.''))\<rparr>;
          s3 = s2\<lparr>attrs := (attrs s2)(''text_position'' \<mapsto>
                 (case persist s2 ''text_position'' of
                    None \<Rightarrow> VList [VInt 0, VInt 300]
                  | Some v \<Rightarrow> v))\<rparr>
      in ret s3)"

definition MainMenu_key_down :: "key_codes \<Rightarrow> inst \<Rightarrow> int \<Rightarrow> int \<Rightarrow> (gfx, inst) res" where
  "MainMenu_key_down k s key md =
     (let s1 = (if key = ESCAPE k then s\<lparr>quit_flag := True\<rparr> else s)
      in if key = SPACE k
         then bind (getattr s1 ''text_position'') (\<lambda>tp.
              bind (iadd_item tp 0 10) (\<lambda>tp1.
              let s2 = s1\<lparr>attrs := (attrs s1)(''text_position'' \<mapsto> tp1)\<rparr> in
              bind (getattr s2 ''text_position'') (\<lambda>tp'.
              bind (iadd_item tp' 1 10) (\<lambda>tp2.
              let s3 = s2\<lparr>attrs := (attrs s2)(''text_position'' \<mapsto> tp2)\<rparr> in
              bind (getattr s3 ''text_position'') (\<lambda>v.
              ret (s3\<lparr>persist := (persist s3)(''text_position'' \<mapsto> v),
                      done_flag := True,
                      next_state := Some ''SCENE''\<rparr>))))))
         else ret s1)"

definition MainMenu_update :: "inst \<Rightarrow> real \<Rightarrow> nat \<Rightarrow> (gfx, inst) res" where
  "MainMenu_update s dt r =
     (let x = randint 150 200 r
      in ret (s\<lparr>attrs := (attrs s)(''col'' \<mapsto> VTuple [VInt 255, VInt x, VInt x])\<rparr>))"

definition MainMenu_draw :: "inst \<Rightarrow> (gfx, inst) res" where
  "MainMenu_draw s =
     bind (getattr s ''col'') (\<lambda>c.
     bind (emit (SetBackgroundColor c)) (\<lambda>_.
     bind (getattr s ''text'') (\<lambda>t.
     bind (getattr s ''text_position'') (\<lambda>tp.
     bind (getitem tp 0) (\<lambda>x.
     bind (getattr s ''text_position'') (\<lambda>tp'.
     bind (getitem tp' 1) (\<lambda>y.
     bind (emit (DrawText t x y)) (\<lambda>_.
     ret s))))))))"

definition MainMenu_cls :: "key_codes \<Rightarrow> state_class" where
  "MainMenu_cls k =
     \<lparr>cname = ''MainMenu'', init_hook = MainMenu_init, setup_hook = MainMenu_setup,
      key_down_hook = MainMenu_key_down k, key_release_hook = State_key_release,
      update_hook = MainMenu_update, draw_hook = MainMenu_draw\<rparr>"

subsection \<open>class Scene\<close>

definition Scene_init :: "(gfx, inst) res" where
  "Scene_init = State_init"

definition Scene_setup :: "inst \<Rightarrow> bag \<Rightarrow> (gfx, inst) res" where
  "Scene_setup s p =
     (let s1 = s\<lparr>persist := p\<rparr>;
          s2 = s1\<lparr>attrs := (attrs s1)(''text'' \<mapsto>
                 VStr (''Scene Two.'' @ [CHR 0x0A] @ ''Press Space to Change Scenes,''
                       @ [CHR 0x0A] @ ''Press Esc. to Exit.''))\<rparr>;
          s3 = s2\<lparr>attrs := (attrs s2)(''text_position'' \<mapsto>
                 (case persist s2 ''text_position'' of
                    None \<Rightarrow> VList [VInt 0, VInt 300]
                  | Some v \<Rightarrow> v))\<rparr>
      in ret s3)"

definition Scene_key_down :: "key_codes \<Rightarrow> inst \<Rightarrow> int \<Rightarrow> int \<Rightarrow> (gfx, inst) res" where
  "Scene_key_down k s key md =
     (let s1 = (if key = ESCAPE k then s\<lparr>quit_flag := True\<rparr> else s)
      in if key = SPACE k
         then bind (getattr s1 ''text_position'') (\<lambda>tp.
              bind (iadd_item tp 0 10) (\<lambda>tp1.
              let s2 = s1\<lparr>attrs := (attrs s1)(''text_position'' \<mapsto> tp1)\<rparr> in
              bind (getattr s2 ''text_position'') (\<lambda>tp'.
              bind (iadd_item tp' 1 10) (\<lambda>tp2.
              let s3 = s2\<lparr>attrs := (attrs s2)(''text_position'' \<mapsto> tp2)\<rparr> in
              bind (getattr s3 ''text_position'') (\<lambda>v.
              ret (s3\<lparr>persist := (persist s3)(''text_position'' \<mapsto> v),
                      done_flag := True,
                      next_state := Some ''MAIN''\<rparr>))))))
         else ret s1)"

definition Scene_update :: "inst \<Rightarrow> real \<Rightarrow> nat \<Rightarrow> (gfx, inst) res" where
  "Scene_update s dt r =
     (let x = randint 150 200 r
      in ret (s\<lparr>attrs := (attrs s)(''col'' \<mapsto> VTuple [VInt x, VInt 255, VInt x])\<rparr>))"

definition Scene_draw :: "inst \<Rightarrow> (gfx, inst) res" where
  "Scene_draw s =
     bind (getattr s ''col'') (\<lambda>c.
     bind (emit (SetBackgroundColor c)) (\<lambda>_.
     bind (getattr s ''text'') (\<lambda>t.
     bind (getattr s ''text_position'') (\<lambda>tp.
     bind (getitem tp 0) (\<lambda>x.
     bind (getattr s ''text_position'') (\<lambda>tp'.
     bind (getitem tp' 1) (\<lambda>y.
     bind (emit (DrawText t x y)) (\<lambda>_.
     ret s))))))))"

definition Scene_cls :: "key_codes \<Rightarrow> state_class" where
  "Scene_cls k =
     \<lparr>cname = ''Scene'', init_hook = Scene_init, setup_hook = Scene_setup,
      key_down_hook = Scene_key_down k, key_release_hook = State_key_release,
      update_hook = Scene_update, draw_hook = Scene_draw\<rparr>"

section \<open>class Game\<close>

text \<open>
  A reference to a state object: its identity, its class and its attributes. The hooks
  receive and return the attributes only, so a hook cannot change which object it is.
\<close>

record pyobj =
  oid :: nat
  cls :: state_class
  self :: inst

text \<open>
  The attributes of \<open>Game\<close>: the window size, the dictionary of states and the active
  state. \<open>next_oid\<close> is the identity that the next constructed object receives.
  \<open>Game.persist\<close> is the dictionary handed to the first state and is never read again
  by \<open>Game\<close>; it is the same object as that state's \<open>persist\<close> and has no field of its own.
\<close>

record game =
  width :: int
  height :: int
  states :: "state_key \<rightharpoonup> state_class"
  state :: pyobj
  next_oid :: nat

text \<open>\<open>c()\<close>: a new object of class \<open>c\<close>, with identity \<open>i\<close>, after its constructor ran.\<close>

definition new_state :: "state_class \<Rightarrow> nat \<Rightarrow> (event, pyobj) res" where
  "new_state c i =
     bind (emit (Construct i)) (\<lambda>_.
     bind (lib (init_hook c)) (\<lambda>s.
     ret \<lparr>oid = i, cls = c, self = s\<rparr>))"

text \<open>The five method calls \<open>ob.setup(p)\<close>, \<open>ob.key_down(key, mod)\<close>, ...\<close>

definition call_setup :: "pyobj \<Rightarrow> bag \<Rightarrow> (event, pyobj) res" where
  "call_setup ob p =
     bind (emit (Setup (oid ob) p)) (\<lambda>_.
     bind (lib (setup_hook (cls ob) (self ob) p)) (\<lambda>s.
     ret (ob\<lparr>self := s\<rparr>)))"

definition call_key_down :: "pyobj \<Rightarrow> int \<Rightarrow> int \<Rightarrow> (event, pyobj) res" where
  "call_key_down ob key md =
     bind (emit (KeyDown (oid ob) key md)) (\<lambda>_.
     bind (lib (key_down_hook (cls ob) (self ob) key md)) (\<lambda>s.
     ret (ob\<lparr>self := s\<rparr>)))"

definition call_key_release :: "pyobj \<Rightarrow> int \<Rightarrow> int \<Rightarrow> (event, pyobj) res" where
  "call_key_release ob key md =
     bind (emit (KeyRelease (oid ob) key md)) (\<lambda>_.
     bind (lib (key_release_hook (cls ob) (self ob) key md)) (\<lambda>s.
     ret (ob\<lparr>self := s\<rparr>)))"

definition call_update :: "pyobj \<Rightarrow> real \<Rightarrow> nat \<Rightarrow> (event, pyobj) res" where
  "call_update ob dt r =
     bind (emit (Update (oid ob) dt)) (\<lambda>_.
     bind (lib (update_hook (cls ob) (self ob) dt r)) (\<lambda>s.
     ret (ob\<lparr>self := s\<rparr>)))"

definition call_draw :: "pyobj \<Rightarrow> (event, pyobj) res" where
  "call_draw ob =
     bind (emit (Draw (oid ob))) (\<lambda>_.
     bind (lib (draw_hook (cls ob) (self ob))) (\<lambda>s.
     ret (ob\<lparr>self := s\<rparr>)))"

definition Game_init ::
  "int \<Rightarrow> int \<Rightarrow> (state_key \<rightharpoonup> state_class) \<Rightarrow> state_key \<Rightarrow> (event, game) res" where
  "Game_init w h sts initial_state =
     (case sts initial_state of
        None \<Rightarrow> raise KeyError
      | Some c \<Rightarrow>
          bind (new_state c 0) (\<lambda>ob.
          bind (call_setup ob Map.empty) (\<lambda>ob'.
          ret \<lparr>width = w, height = h, states = sts, state = ob', next_oid = 1\<rparr>)))"

definition Game_on_draw :: "game \<Rightarrow> (event, game) res" where
  "Game_on_draw g =
     bind (emit (Lib StartRender)) (\<lambda>_.
     bind (call_draw (state g)) (\<lambda>ob.
     ret (g\<lparr>state := ob\<rparr>)))"

definition Game_on_key_press :: "game \<Rightarrow> int \<Rightarrow> int \<Rightarrow> (event, game) res" where
  "Game_on_key_press g key md =
     bind (call_key_down (state g) key md) (\<lambda>ob.
     ret (g\<lparr>state := ob\<rparr>))"

definition Game_on_key_release :: "game \<Rightarrow> int \<Rightarrow> int \<Rightarrow> (event, game) res" where
  "Game_on_key_release g key md =
     bind (call_key_release (state g) key md) (\<lambda>ob.
     ret (g\<lparr>state := ob\<rparr>))"

definition Game_flip_state :: "game \<Rightarrow> (event, game) res" where
  "Game_flip_state g =
     (let p = persist (self (state g));
          g1 = g\<lparr>state := (state g)\<lparr>self := (self (state g))\<lparr>done_flag := False\<rparr>\<rparr>\<rparr>
      in case states g1 (next_state (self (state g1))) of
           None \<Rightarrow> raise KeyError
         | Some c \<Rightarrow>
             bind (new_state c (next_oid g1)) (\<lambda>ob.
             let g2 = g1\<lparr>state := ob, next_oid := Suc (next_oid g1)\<rparr> in
             bind (call_setup (state g2) p) (\<lambda>ob'.
             ret (g2\<lparr>state := ob'\<rparr>))))"

definition Game_check_state :: "game \<Rightarrow> (event, game) res" where
  "Game_check_state g =
     bind (if done_flag (self (state g)) then Game_flip_state g else ret g) (\<lambda>g1.
     if quit_flag (self (state g1)) then raise SystemExit else ret g1)"

definition Game_update :: "game \<Rightarrow> real \<Rightarrow> nat \<Rightarrow> (event, game) res" where
  "Game_update g dt r =
     bind (Game_check_state g) (\<lambda>g1.
     bind (call_update (state g1) dt r) (\<lambda>ob.
     ret (g1\<lparr>state := ob\<rparr>)))"

subsection \<open>The main program\<close>

definition game_states :: "key_codes \<Rightarrow> (state_key \<rightharpoonup> state_class)" where
  "game_states k = [Some ''MAIN'' \<mapsto> MainMenu_cls k, Some ''SCENE'' \<mapsto> Scene_cls k]"

definition main :: "key_codes \<Rightarrow> (event, game) res" where
  "main k = Game_init 600 600 (game_states k) (Some ''MAIN'')"

text \<open>
  The callbacks that the window delivers between two update ticks, and their delivery in
  call order; an exception ends the delivery.
\<close>

datatype callback = OnDraw | OnKeyPress int int | OnKeyRelease int int

fun deliver :: "game \<Rightarrow> callback \<Rightarrow> (event, game) res" where
  "deliver g OnDraw = Game_on_draw g"
| "deliver g (OnKeyPress key md) = Game_on_key_press g key md"
| "deliver g (OnKeyRelease key md) = Game_on_key_release g key md"

fun deliver_all :: "game \<Rightarrow> callback list \<Rightarrow> (event, game) res" where
  "deliver_all g [] = ret g"
| "deliver_all g (c # cs) = bind (deliver g c) (\<lambda>g1. deliver_all g1 cs)"

section \<open>Properties\<close>

subsection \<open>Sequencing\<close>

lemma bind_ret [simp]: "bind (ret x) f = f x"
  by (simp add: bind_def ret_def split: prod.splits)

lemma bind_raise [simp]: "bind (raise e) f = raise e"
  by (simp add: bind_def raise_def)

lemma bind_emit [simp]: "bind (emit e) f = (e # fst (f ()), snd (f ()))"
  by (simp add: bind_def emit_def split: prod.splits)

lemma bind_Inr [simp]: "bind (t, Inr x) f = (t @ fst (f x), snd (f x))"
  by (simp add: bind_def split: prod.splits)

lemma bind_Inl [simp]: "bind (t, Inl e) f = (t, Inl e)"
  by (simp add: bind_def)

lemma lib_Inr [simp]: "lib (t, r) = (map Lib t, r)"
  by (simp add: lib_def)

text \<open>Evaluation rules that compute the continuation once.\<close>

lemma bind_emit_case: "bind (emit e) f = (case f () of (t, r) \<Rightarrow> (e # t, r))"
  by (simp add: bind_def emit_def split: prod.splits)

lemma bind_Inr_case: "bind (t, Inr x) f = (case f x of (t', r) \<Rightarrow> (t @ t', r))"
  by (simp add: bind_def split: prod.splits)

lemma fst_bind: "fst (bind m f) = fst m @ (case snd m of Inl e \<Rightarrow> [] | Inr x \<Rightarrow> fst (f x))"
  by (cases m) (simp add: bind_def split: sum.splits prod.splits)

lemma snd_bind: "snd (bind m f) = (case snd m of Inl e \<Rightarrow> Inl e | Inr x \<Rightarrow> snd (f x))"
  by (cases m) (simp add: bind_def split: sum.splits prod.splits)

lemma fst_ret [simp]: "fst (ret x) = []"
  by (simp add: ret_def)

lemma snd_ret [simp]: "snd (ret x) = Inr x"
  by (simp add: ret_def)

lemma fst_raise [simp]: "fst (raise e) = []"
  by (simp add: raise_def)

lemma snd_raise [simp]: "snd (raise e) = Inl e"
  by (simp add: raise_def)

lemma fst_lib [simp]: "fst (lib m) = map Lib (fst m)"
  by (simp add: lib_def)

lemma snd_lib [simp]: "snd (lib m) = snd m"
  by (simp add: lib_def)

lemma filter_Construct_Lib [simp]: "filter is_Construct (map Lib t) = []"
  by (induction t) simp_all

lemma filter_Update_Lib [simp]: "filter is_Update (map Lib t) = []"
  by (induction t) simp_all

lemmas call_defs = call_setup_def call_key_down_def call_key_release_def call_update_def
  call_draw_def

lemmas src_class_defs = State_cls_def MainMenu_cls_def Scene_cls_def
  State_init_def MainMenu_init_def Scene_init_def
  State_setup_def MainMenu_setup_def Scene_setup_def
  State_update_def MainMenu_update_def Scene_update_def

lemmas driver_defs = Game_init_def Game_on_draw_def Game_on_key_press_def
  Game_on_key_release_def Game_flip_state_def Game_check_state_def Game_update_def
  new_state_def call_defs main_def game_states_def

lemmas hook_defs = src_class_defs State_key_down_def State_key_release_def State_draw_def
  MainMenu_key_down_def Scene_key_down_def MainMenu_draw_def Scene_draw_def getattr_def
  randint_def

lemmas eval_simps = driver_defs hook_defs Let_def ret_def raise_def bind_emit_case
  bind_Inr_case

subsection \<open>What one call constructs and which object it leaves active\<close>

lemma Construct_new_state: "filter is_Construct (fst (new_state c i)) = [Construct i]"
  by (simp add: new_state_def fst_bind split: sum.splits)

lemma Construct_call_setup: "filter is_Construct (fst (call_setup ob p)) = []"
  by (simp add: call_setup_def fst_bind split: sum.splits)

lemma Construct_call_update: "filter is_Construct (fst (call_update ob dt r)) = []"
  by (simp add: call_update_def fst_bind split: sum.splits)

lemma Construct_flip_state: "length (filter is_Construct (fst (Game_flip_state g))) \<le> 1"
  by (simp add: Game_flip_state_def Let_def fst_bind Construct_new_state Construct_call_setup
      split: option.splits sum.splits)

lemma Construct_check_state: "length (filter is_Construct (fst (Game_check_state g))) \<le> 1"
  using Construct_flip_state [of g]
  by (simp add: Game_check_state_def fst_bind split: sum.splits)

lemma new_state_Inr: "snd (new_state c i) = Inr ob \<Longrightarrow> oid ob = i \<and> cls ob = c"
  by (auto simp add: new_state_def snd_bind emit_def split: sum.splits)

lemma call_setup_Inr:
  "snd (call_setup ob p) = Inr ob' \<Longrightarrow> oid ob' = oid ob \<and> cls ob' = cls ob"
  by (auto simp add: call_setup_def snd_bind emit_def split: sum.splits)

lemma call_update_Inr:
  "snd (call_update ob dt r) = Inr ob' \<Longrightarrow> oid ob' = oid ob \<and> cls ob' = cls ob"
  by (auto simp add: call_update_def snd_bind emit_def split: sum.splits)

lemma flip_state_Inr:
  "snd (Game_flip_state g) = Inr g' \<Longrightarrow>
     oid (state g') = next_oid g \<and> next_oid g' = Suc (next_oid g) \<and> states g' = states g"
  by (auto simp add: Game_flip_state_def Let_def snd_bind split: option.splits sum.splits
      dest!: new_state_Inr call_setup_Inr)

lemma check_state_Inr:
  "snd (Game_check_state g) = Inr g' \<Longrightarrow>
     oid (state g') = (if done_flag (self (state g)) then next_oid g else oid (state g))
     \<and> next_oid g' = (if done_flag (self (state g)) then Suc (next_oid g) else next_oid g)"
  by (auto simp add: Game_check_state_def snd_bind split: sum.splits if_splits
      dest!: flip_state_Inr)

lemma update_Inr:
  "snd (Game_update g dt r) = Inr g' \<Longrightarrow>
     oid (state g') = (if done_flag (self (state g)) then next_oid g else oid (state g))
     \<and> next_oid g' = (if done_flag (self (state g)) then Suc (next_oid g) else next_oid g)"
  by (auto simp add: Game_update_def snd_bind split: sum.splits if_splits
      dest!: check_state_Inr call_update_Inr)

lemma deliver_keeps:
  "snd (deliver g c) = Inr g' \<Longrightarrow>
     oid (state g') = oid (state g) \<and> cls (state g') = cls (state g) \<and> states g' = states g
     \<and> next_oid g' = next_oid g"
  by (cases c)
    (auto simp add: Game_on_draw_def Game_on_key_press_def Game_on_key_release_def call_defs
      snd_bind emit_def split: sum.splits)

lemma deliver_no_Construct: "filter is_Construct (fst (deliver g c)) = []"
  by (cases c)
    (auto simp add: Game_on_draw_def Game_on_key_press_def Game_on_key_release_def call_defs
      fst_bind emit_def split: sum.splits)

lemma deliver_all_no_Construct: "filter is_Construct (fst (deliver_all g cs)) = []"
  by (induction cs arbitrary: g) (simp_all add: fst_bind deliver_no_Construct split: sum.splits)

lemma deliver_all_keeps:
  "snd (deliver_all g cs) = Inr g' \<Longrightarrow>
     oid (state g') = oid (state g) \<and> cls (state g') = cls (state g) \<and> states g' = states g
     \<and> next_oid g' = next_oid g"
proof (induction cs arbitrary: g)
  case Nil
  then show ?case by simp
next
  case (Cons c cs)
  from Cons.prems obtain g1 where d: "snd (deliver g c) = Inr g1"
    and rest: "snd (deliver_all g1 cs) = Inr g'"
    by (auto simp add: snd_bind split: sum.splits)
  from deliver_keeps [OF d] Cons.IH [OF rest] show ?case by simp
qed

text \<open>
  Every operation of \<open>Game\<close> keeps the identity of the active state below the next
  identity to hand out, so a newly constructed object is never the active one.
\<close>

lemma Game_init_oid: "snd (Game_init w h sts k0) = Inr g \<Longrightarrow> oid (state g) < next_oid g"
  by (auto simp add: Game_init_def snd_bind split: option.splits sum.splits
      dest!: new_state_Inr call_setup_Inr)

lemma Game_update_oid:
  "oid (state g) < next_oid g \<Longrightarrow> snd (Game_update g dt r) = Inr g' \<Longrightarrow>
     oid (state g') < next_oid g'"
  by (auto dest!: update_Inr split: if_splits)

lemma deliver_all_oid:
  "oid (state g) < next_oid g \<Longrightarrow> snd (deliver_all g cs) = Inr g' \<Longrightarrow>
     oid (state g') < next_oid g'"
  by (auto dest!: deliver_all_keeps)

lemma MainMenu_draw_same: "snd (MainMenu_draw s) = Inr s' \<Longrightarrow> s' = s"
  by (simp add: MainMenu_draw_def snd_bind emit_def split: sum.splits)

lemma Scene_draw_same: "snd (Scene_draw s) = Inr s' \<Longrightarrow> s' = s"
  by (simp add: Scene_draw_def snd_bind emit_def split: sum.splits)

text \<open>
  When \<open>quit\<close> is set and \<open>done\<close> is not, \<open>Game.update\<close> calls \<open>quit()\<close> before anything
  is dispatched.
\<close>

lemma quit_without_done_exits:
  "\<not> done_flag (self (state g)) \<Longrightarrow> quit_flag (self (state g)) \<Longrightarrow>
     Game_update g dt r = ([], Inl SystemExit)"
  by (simp add: Game_update_def Game_check_state_def raise_def)

text \<open>
  The constructors and the setup and update hooks of the three classes of the program
  always return, and their setup hooks store the dictionary they are given: with these
  classes a transition and the start of the game go through for every input.
\<close>

lemma program_classes_transition:
  assumes "states g (Some X) = Some c"
    and "c = State_cls \<or> c = MainMenu_cls k \<or> c = Scene_cls k"
    and "done_flag (self (state g))"
    and "next_state (self (state g)) = Some X"
    and "persist (self (state g)) p = Some v"
  shows "\<exists>g'. Game_update g dt r =
           ([Construct (next_oid g), Setup (next_oid g) (persist (self (state g))),
             Update (next_oid g) dt], Inr g')
         \<and> oid (state g') = next_oid g
         \<and> cls (state g') = c
         \<and> persist (self (state g')) = persist (self (state g))
         \<and> persist (self (state g')) p = Some v
         \<and> \<not> done_flag (self (state g'))
         \<and> \<not> quit_flag (self (state g'))
         \<and> next_state (self (state g')) = None"
  using assms
  by (auto simp add: Game_update_def Game_check_state_def Game_flip_state_def Let_def
      new_state_def call_defs src_class_defs ret_def raise_def)

lemma program_classes_init:
  "(sts k0 = None \<longrightarrow> Game_init w h sts k0 = ([], Inl KeyError))
   \<and> (sts k0 = Some c \<and> (c = State_cls \<or> c = MainMenu_cls k \<or> c = Scene_cls k) \<longrightarrow>
        (\<exists>g. Game_init w h sts k0 = ([Construct 0, Setup 0 Map.empty], Inr g)
            \<and> states g = sts
            \<and> oid (state g) = 0
            \<and> cls (state g) = c
            \<and> persist (self (state g)) = Map.empty
            \<and> \<not> done_flag (self (state g))
            \<and> \<not> quit_flag (self (state g))))"
  by (auto simp add: Game_init_def new_state_def call_defs src_class_defs Let_def ret_def
      raise_def)

subsection \<open>Transitions\<close>




text \<open>
  Claim C2. The claim is that \<open>quit\<close> is tested before \<open>done\<close>, so that a state with
  \<open>quit\<close> set ends the program without a transition and without an update. The code
  tests \<open>done\<close> first and then reads \<open>quit\<close> from whichever state is active after the
  flip. Evaluated on the main program after the ESCAPE key and then the SPACE key were
  pressed on the menu (both flags set): \<open>Game.update\<close> returns normally, constructs the
  scene, dispatches the update to it, and the scene's \<open>quit\<close> flag is unset, so the
  request to quit is lost.
\<close>

theorem quit_ignored_when_done:
  "\<exists>g t g'.
      snd (bind (main \<lparr>ESCAPE = 65307, SPACE = 32\<rparr>) (\<lambda>g0.
             bind (Game_on_key_press g0 65307 0) (\<lambda>g1. Game_on_key_press g1 32 0))) = Inr g
      \<and> quit_flag (self (state g))
      \<and> done_flag (self (state g))
      \<and> oid (state g) = 0
      \<and> Game_update g 0 0 = (t, Inr g')
      \<and> filter is_Construct t = [Construct 1]
      \<and> filter is_Update t = [Update 1 0]
      \<and> cname (cls (state g')) = ''Scene''
      \<and> \<not> quit_flag (self (state g'))"
  by (simp add: eval_simps del: bind_emit bind_Inr)

text \<open>
  Claim C3. During one call of \<open>Game.update\<close> at most one state object is constructed,
  whatever the classes in the dictionary do: \<open>check_state\<close> tests \<open>done\<close> once and
  \<open>flip_state\<close> does not test it again. When the call returns, the active state is the
  object constructed by that one flip (or the previous object when \<open>done\<close> was unset),
  also when the successor already has \<open>done\<close> set: it stays active until the next call.
\<close>

theorem one_transition_per_update:
  "length (filter is_Construct (fst (Game_update g dt r))) \<le> 1
   \<and> (\<forall>g'. snd (Game_update g dt r) = Inr g' \<longrightarrow>
         oid (state g') = (if done_flag (self (state g)) then next_oid g else oid (state g))
         \<and> next_oid g' = (if done_flag (self (state g)) then Suc (next_oid g) else next_oid g))"
  using Construct_check_state [of g] update_Inr [of g dt r]
  by (simp add: Game_update_def fst_bind Construct_call_update split: sum.splits)

text \<open>
  The witness uses a class like \<open>State\<close> whose setup hook sets \<open>done\<close> at once: after
  the call the successor is active with \<open>done\<close> set, and one object was constructed.
\<close>

theorem one_transition_per_update_witness:
  "let eager = State_cls\<lparr>cname := ''Eager'',
                 setup_hook := (\<lambda>s p. ret (s\<lparr>persist := p, done_flag := True,
                                               next_state := Some ''EAGER''\<rparr>))\<rparr>;
       g = \<lparr>width = 600, height = 600, states = [Some ''EAGER'' \<mapsto> eager],
            state = \<lparr>oid = 0, cls = eager,
                     self = \<lparr>persist = Map.empty, next_state = Some ''EAGER'',
                             done_flag = True, quit_flag = False, attrs = Map.empty\<rparr>\<rparr>,
            next_oid = 1\<rparr>
   in \<exists>g'. snd (Game_update g 0 0) = Inr g'
        \<and> done_flag (self (state g))
        \<and> done_flag (self (state g'))
        \<and> oid (state g') = 1
        \<and> next_oid g' = 2
        \<and> filter is_Construct (fst (Game_update g 0 0)) = [Construct 1]"
  unfolding Let_def
  using one_transition_per_update
    [of "\<lparr>width = 600, height = 600,
          states = [Some ''EAGER'' \<mapsto> State_cls\<lparr>cname := ''Eager'',
                 setup_hook := (\<lambda>s p. ret (s\<lparr>persist := p, done_flag := True,
                                               next_state := Some ''EAGER''\<rparr>))\<rparr>],
          state = \<lparr>oid = 0, cls = State_cls\<lparr>cname := ''Eager'',
                 setup_hook := (\<lambda>s p. ret (s\<lparr>persist := p, done_flag := True,
                                               next_state := Some ''EAGER''\<rparr>))\<rparr>,
                     self = \<lparr>persist = Map.empty, next_state = Some ''EAGER'',
                             done_flag = True, quit_flag = False, attrs = Map.empty\<rparr>\<rparr>,
          next_oid = 1\<rparr>" 0 0]
  by (simp add: eval_simps del: bind_emit bind_Inr)

text \<open>
  Claim C4, as amended. In the main program, after a key press with the SPACE key the
  menu is still the active state; the following \<open>Game.update\<close> makes a new \<open>Scene\<close>
  object the active state, and \<open>persist["text_position"]\<close> is the menu's default position
  \<open>[0, 300]\<close> with 10 added to both coordinates, that is \<open>[10, 310]\<close>.
\<close>

theorem advance_key_scenario:
  "\<exists>g1 g2. snd (bind (main k) (\<lambda>g. Game_on_key_press g (SPACE k) md)) = Inr g1
     \<and> cls (state g1) = MainMenu_cls k
     \<and> snd (Game_update g1 dt r) = Inr g2
     \<and> cls (state g2) = Scene_cls k
     \<and> oid (state g2) \<noteq> oid (state g1)
     \<and> persist (self (state g2)) ''text_position'' = Some (VList [VInt 10, VInt 310])"
  by (simp add: eval_simps del: bind_emit bind_Inr)

text \<open>
  Claim C4 as stated gives \<open>[10, 10]\<close> for that value. The scenario runs to its end
  and the stored value is not \<open>[10, 10]\<close>.
\<close>

theorem advance_key_scenario_counterexample:
  "let out = snd (bind (main \<lparr>ESCAPE = 65307, SPACE = 32\<rparr>) (\<lambda>g.
               bind (Game_on_key_press g 32 0) (\<lambda>g1. Game_update g1 0 0)))
   in \<not> isl out
      \<and> persist (self (state (projr out))) ''text_position''
          \<noteq> Some (VList [VInt 10, VInt 10])"
  by (simp add: eval_simps del: bind_emit bind_Inr)




text \<open>
  Claim C6. When the active state has \<open>done\<close> set and its \<open>next_state\<close> is not a key of
  the dictionary of states (for instance \<open>None\<close>, which the constructor assigns), the
  next \<open>Game.update\<close> raises \<open>KeyError\<close> before any hook is called: the transition is
  not skipped.
\<close>

theorem missing_next_state_fails_fast:
  assumes "done_flag (self (state g))"
    and "states g (next_state (self (state g))) = None"
  shows "Game_update g dt r = ([], Inl KeyError)"
  using assms
  by (simp add: Game_update_def Game_check_state_def Game_flip_state_def Let_def raise_def)

theorem missing_next_state_fails_fast_witness:
  "let k = \<lparr>ESCAPE = 65307, SPACE = 32\<rparr>;
       g = \<lparr>width = 600, height = 600, states = game_states k,
            state = \<lparr>oid = 0, cls = State_cls,
                     self = \<lparr>persist = Map.empty, next_state = None, done_flag = True,
                             quit_flag = False, attrs = Map.empty\<rparr>\<rparr>,
            next_oid = 1\<rparr>
   in done_flag (self (state g))
      \<and> states g (next_state (self (state g))) = None
      \<and> Game_update g 0 0 = ([], Inl KeyError)"
  unfolding Let_def
  using missing_next_state_fails_fast
    [of "\<lparr>width = 600, height = 600, states = game_states \<lparr>ESCAPE = 65307, SPACE = 32\<rparr>,
            state = \<lparr>oid = 0, cls = State_cls,
                     self = \<lparr>persist = Map.empty, next_state = None, done_flag = True,
                             quit_flag = False, attrs = Map.empty\<rparr>\<rparr>,
            next_oid = 1\<rparr>" 0 0]
  by (simp add: game_states_def)

subsection \<open>Callbacks other than update\<close>

text \<open>
  Claim C7. Any sequence of \<open>on_draw\<close>, \<open>on_key_press\<close> and \<open>on_key_release\<close> calls
  constructs no state object, and after it the active state is the same object, of the
  same class, and the dictionary of states is the same. Each of the three callbacks
  passes its arguments to the corresponding hook of the active state and does nothing
  else (\<open>on_draw\<close> first calls \<open>start_render\<close>).
\<close>

theorem callbacks_keep_active_state:
  "filter is_Construct (fst (deliver_all g cs)) = []
   \<and> (\<forall>g'. snd (deliver_all g cs) = Inr g' \<longrightarrow>
         oid (state g') = oid (state g) \<and> cls (state g') = cls (state g)
         \<and> states g' = states g)
   \<and> Game_on_draw g =
       (Lib StartRender # Draw (oid (state g))
          # map Lib (fst (draw_hook (cls (state g)) (self (state g)))),
        map_sum id (\<lambda>s. g\<lparr>state := (state g)\<lparr>self := s\<rparr>\<rparr>)
          (snd (draw_hook (cls (state g)) (self (state g)))))
   \<and> Game_on_key_press g key md =
       (KeyDown (oid (state g)) key md
          # map Lib (fst (key_down_hook (cls (state g)) (self (state g)) key md)),
        map_sum id (\<lambda>s. g\<lparr>state := (state g)\<lparr>self := s\<rparr>\<rparr>)
          (snd (key_down_hook (cls (state g)) (self (state g)) key md)))
   \<and> Game_on_key_release g key md =
       (KeyRelease (oid (state g)) key md
          # map Lib (fst (key_release_hook (cls (state g)) (self (state g)) key md)),
        map_sum id (\<lambda>s. g\<lparr>state := (state g)\<lparr>self := s\<rparr>\<rparr>)
          (snd (key_release_hook (cls (state g)) (self (state g)) key md)))"
proof -
  have pass: "bind (emit e) (\<lambda>_. bind (lib h) (\<lambda>s. ret (f s)))
      = (e # map Lib (fst h), map_sum id f (snd h))" for e :: event and h :: "(gfx, inst) res"
      and f :: "inst \<Rightarrow> 'a"
    by (cases h; cases "snd h") (simp_all add: ret_def)
  have press: "Game_on_key_press g key md =
       (KeyDown (oid (state g)) key md
          # map Lib (fst (key_down_hook (cls (state g)) (self (state g)) key md)),
        map_sum id (\<lambda>s. g\<lparr>state := (state g)\<lparr>self := s\<rparr>\<rparr>)
          (snd (key_down_hook (cls (state g)) (self (state g)) key md)))"
    by (cases "key_down_hook (cls (state g)) (self (state g)) key md";
        cases "snd (key_down_hook (cls (state g)) (self (state g)) key md)")
      (simp_all add: Game_on_key_press_def call_key_down_def ret_def)
  have release: "Game_on_key_release g key md =
       (KeyRelease (oid (state g)) key md
          # map Lib (fst (key_release_hook (cls (state g)) (self (state g)) key md)),
        map_sum id (\<lambda>s. g\<lparr>state := (state g)\<lparr>self := s\<rparr>\<rparr>)
          (snd (key_release_hook (cls (state g)) (self (state g)) key md)))"
    by (cases "key_release_hook (cls (state g)) (self (state g)) key md";
        cases "snd (key_release_hook (cls (state g)) (self (state g)) key md)")
      (simp_all add: Game_on_key_release_def call_key_release_def ret_def)
  have draw: "Game_on_draw g =
       (Lib StartRender # Draw (oid (state g))
          # map Lib (fst (draw_hook (cls (state g)) (self (state g)))),
        map_sum id (\<lambda>s. g\<lparr>state := (state g)\<lparr>self := s\<rparr>\<rparr>)
          (snd (draw_hook (cls (state g)) (self (state g)))))"
    by (cases "draw_hook (cls (state g)) (self (state g))";
        cases "snd (draw_hook (cls (state g)) (self (state g)))")
      (simp_all add: Game_on_draw_def call_draw_def ret_def)
  from deliver_all_no_Construct [of g cs] deliver_all_keeps [of g cs] press release draw
  show ?thesis by blast
qed

theorem callbacks_keep_active_state_witness:
  "let k = \<lparr>ESCAPE = 65307, SPACE = 32\<rparr>;
       g = projr (snd (bind (main k) (\<lambda>g. Game_update g 0 0)));
       cs = [OnDraw, OnKeyPress 32 0, OnKeyRelease 32 0, OnDraw]
   in (\<exists>g'. snd (deliver_all g cs) = Inr g'
         \<and> done_flag (self (state g'))
         \<and> oid (state g') = 0
         \<and> cls (state g') = MainMenu_cls k)
      \<and> oid (state g) = 0
      \<and> cls (state g) = MainMenu_cls k"
  unfolding Let_def
  using callbacks_keep_active_state
    [of "projr (snd (bind (main \<lparr>ESCAPE = 65307, SPACE = 32\<rparr>) (\<lambda>g. Game_update g 0 0)))"
        "[OnDraw, OnKeyPress 32 0, OnKeyRelease 32 0, OnDraw]" 0 0]
  by (simp add: eval_simps del: bind_emit bind_Inr)




subsection \<open>The hooks of MainMenu and Scene\<close>

text \<open>
  Claim C9. On a \<open>MainMenu\<close> or \<open>Scene\<close> object that was constructed and set up but
  not yet updated, the attribute \<open>col\<close> does not exist, so the draw hook raises
  \<open>AttributeError\<close> before it draws anything, and so does \<open>Game.on_draw\<close> when that
  object is the active state.
\<close>

theorem draw_before_update_fails:
  assumes "c = MainMenu_cls k \<or> c = Scene_cls k"
    and "init_hook c = (t0, Inr s0)"
    and "setup_hook c s0 b = (t1, Inr s1)"
  shows "attrs s1 ''col'' = None
         \<and> draw_hook c s1 = ([], Inl AttributeError)
         \<and> Game_on_draw (g\<lparr>state := \<lparr>oid = i, cls = c, self = s1\<rparr>\<rparr>)
             = ([Lib StartRender, Draw i], Inl AttributeError)"
  using assms
  by (auto simp add: Game_on_draw_def call_draw_def hook_defs Let_def ret_def raise_def)

theorem draw_before_update_fails_witness:
  "let k = \<lparr>ESCAPE = 65307, SPACE = 32\<rparr>;
       s0 = projr (snd MainMenu_init);
       s1 = projr (snd (MainMenu_setup s0 Map.empty));
       g = projr (snd (main k))
   in init_hook (MainMenu_cls k) = ([], Inr s0)
      \<and> setup_hook (MainMenu_cls k) s0 Map.empty = ([], Inr s1)
      \<and> state g = \<lparr>oid = 0, cls = MainMenu_cls k, self = s1\<rparr>
      \<and> Game_on_draw g = ([Lib StartRender, Draw 0], Inl AttributeError)"
  unfolding Let_def
  using draw_before_update_fails
    [where c = "MainMenu_cls \<lparr>ESCAPE = 65307, SPACE = 32\<rparr>"
       and k = "\<lparr>ESCAPE = 65307, SPACE = 32\<rparr>"
       and ?t0.0 = "[]" and ?s0.0 = "projr (snd MainMenu_init)" and b = "Map.empty"
       and ?t1.0 = "[]"
       and ?s1.0 = "projr (snd (MainMenu_setup (projr (snd MainMenu_init)) Map.empty))"
       and g = "projr (snd (main \<lparr>ESCAPE = 65307, SPACE = 32\<rparr>))" and i = 0]
  by (simp add: eval_simps del: bind_emit bind_Inr)

text \<open>
  Claim C10. For \<open>MainMenu\<close> and \<open>Scene\<close>: a key press with a key other than SPACE and
  ESCAPE leaves the object as it is (so \<open>done\<close>, \<open>quit\<close>, \<open>next_state\<close>, \<open>persist\<close> and
  \<open>text_position\<close> are unchanged), and so does every key release; the setup hook
  returns and leaves \<open>done\<close>, \<open>quit\<close> and \<open>next_state\<close> unchanged; the update hook
  returns and leaves \<open>done\<close>, \<open>quit\<close>, \<open>next_state\<close> and \<open>persist\<close> unchanged; the draw
  hook, when it returns, leaves the object as it is.
\<close>

theorem only_key_down_sets_flags:
  assumes "c = MainMenu_cls k \<or> c = Scene_cls k"
  shows "(key \<noteq> SPACE k \<and> key \<noteq> ESCAPE k \<longrightarrow> key_down_hook c s key md = ([], Inr s))
     \<and> key_release_hook c s key md = ([], Inr s)
     \<and> (\<exists>s'. setup_hook c s b = ([], Inr s')
            \<and> done_flag s' = done_flag s \<and> quit_flag s' = quit_flag s
            \<and> next_state s' = next_state s)
     \<and> (\<exists>s'. update_hook c s dt r = ([], Inr s')
            \<and> done_flag s' = done_flag s \<and> quit_flag s' = quit_flag s
            \<and> next_state s' = next_state s \<and> persist s' = persist s)
     \<and> (\<forall>s'. snd (draw_hook c s) = Inr s' \<longrightarrow> s' = s)"
  using assms MainMenu_draw_same [of s] Scene_draw_same [of s]
  by (auto simp add: src_class_defs MainMenu_key_down_def Scene_key_down_def
      State_key_release_def Let_def ret_def)

theorem only_key_down_sets_flags_witness:
  "let k = \<lparr>ESCAPE = 65307, SPACE = 32\<rparr>;
       s = projr (snd (bind MainMenu_init (\<lambda>s0.
             bind (MainMenu_setup s0 Map.empty) (\<lambda>s1. MainMenu_update s1 0 7))))
   in 97 \<noteq> SPACE k \<and> 97 \<noteq> ESCAPE k
      \<and> key_down_hook (MainMenu_cls k) s 97 0 = ([], Inr s)
      \<and> snd (draw_hook (MainMenu_cls k) s) = Inr s
      \<and> attrs (projr (snd (update_hook (MainMenu_cls k) s 0 3))) ''col''
          = Some (VTuple [VInt 255, VInt 153, VInt 153])
      \<and> persist (projr (snd (update_hook (MainMenu_cls k) s 0 3))) = persist s
      \<and> attrs s ''col'' = Some (VTuple [VInt 255, VInt 157, VInt 157])"
  unfolding Let_def
  using only_key_down_sets_flags
    [where c = "MainMenu_cls \<lparr>ESCAPE = 65307, SPACE = 32\<rparr>"
       and k = "\<lparr>ESCAPE = 65307, SPACE = 32\<rparr>"
       and s = "projr (snd (bind MainMenu_init (\<lambda>s0.
             bind (MainMenu_setup s0 Map.empty) (\<lambda>s1. MainMenu_update s1 0 7))))"
       and key = 97 and md = 0 and b = "Map.empty" and dt = 0 and r = 3]
  by (simp add: eval_simps emit_def del: bind_emit bind_Inr)

end
